theory Spec2Isabelle
  imports Complex_Main "HOL-Library.Signed_Division"
begin

section \<open>Data model\<close>

text \<open>
  Python values that can sit in a node's attribute mappings: \<open>None\<close>, an integer, a
  string, a list of integers.
\<close>

datatype py_value = PyNone | PyInt int | PyStr string | PyInts "int list"

text \<open>
  The exceptions the two operator modules can end in. \<open>ValueError\<close> is the failed tuple
  unpacking, \<open>IndexError\<close> a tuple index out of range, \<open>UnboundLocalError\<close> the read of a
  local that no executed statement assigned, \<open>TypeError\<close> the host library's rejection
  of an argument, \<open>BroadcastError\<close> the host library's "incompatible shapes" failure.
\<close>

datatype error =
    AssertionError
  | ValueError
  | IndexError
  | UnboundLocalError
  | TypeError
  | BroadcastError

text \<open>
  The two translation functions as values: a version method returns one of them.
\<close>

datatype impl = Onnx_mod | Onnx_slice

text \<open>
  Keyword-only parameters of each translation function, read off the signatures
  \<^verbatim>\<open>def onnx_mod(*input_args, fmod)\<close> and \<^verbatim>\<open>def onnx_slice(*input_args)\<close>.
\<close>

fun kwparams :: "impl \<Rightarrow> string list" where
  "kwparams Onnx_mod = [''fmod'']"
| "kwparams Onnx_slice = []"

text \<open>
  Modelled from the spec: the node descriptor class \<^verbatim>\<open>onnx_node.OnnxNode\<close> is not among
  the sources. The spec gives it an operator type name, an opset version, the raw
  attribute mapping \<open>attrs\<close> and the derived mapping \<open>attrs_dict\<close>.
\<close>

record onnx_node =
  op_type :: string
  version :: int
  attrs :: "string \<rightharpoonup> py_value"
  attrs_dict :: "string \<rightharpoonup> py_value"

text \<open>An n-dimensional array: its shape and its elements in row-major order.\<close>

record 'a tensor =
  shape :: "nat list"
  data :: "'a list"

type_synonym operand = "int tensor"

definition wf_tensor :: "'a tensor \<Rightarrow> bool" where
  "wf_tensor t = (length (data t) = prod_list (shape t))"

definition vec :: "'a list \<Rightarrow> 'a tensor" where
  "vec vs = \<lparr>shape = [length vs], data = vs\<rparr>"

definition matrix :: "'a list list \<Rightarrow> 'a tensor" where
  "matrix rows = \<lparr>shape = [length rows, (case rows of [] \<Rightarrow> 0 | r # _ \<Rightarrow> length r)],
                  data = concat rows\<rparr>"

section \<open>Preparation\<close>

text \<open>Python's \<^verbatim>\<open>d.get(k, default)\<close>.\<close>

definition py_get :: "(string \<rightharpoonup> py_value) \<Rightarrow> string \<Rightarrow> py_value \<Rightarrow> py_value" where
  "py_get d k dflt = (case d k of None \<Rightarrow> dflt | Some v \<Rightarrow> v)"

text \<open>
  Modelled from the spec: \<^verbatim>\<open>onnx_ops_utils.update_node_attrs_dict\<close> is not among the
  sources. By the spec, preparation populates \<open>attrs_dict\<close> with the parameters the
  translation function needs and mutates nothing else: for every keyword-only
  parameter of the translation function the entry is read from the raw attributes,
  \<open>None\<close> when the model does not declare it.
\<close>

definition update_node_attrs_dict :: "onnx_node \<Rightarrow> impl \<Rightarrow> onnx_node" where
  "update_node_attrs_dict node onnx_jax_impl =
     node\<lparr>attrs_dict :=
       fold (\<lambda>name d. d(name \<mapsto> py_get (attrs node) name PyNone))
            (kwparams onnx_jax_impl) (attrs_dict node)\<rparr>"

text \<open>
  \<^verbatim>\<open>Mod._prepare\<close>: the node is mutated in place, so the model returns the new node.
\<close>

definition Mod_prepare :: "onnx_node \<Rightarrow> operand list \<Rightarrow> impl \<Rightarrow> onnx_node" where
  "Mod_prepare node inputs onnx_jax_impl =
     (let node1 = update_node_attrs_dict node onnx_jax_impl
      in node1\<lparr>attrs_dict :=
           (attrs_dict node1)(''fmod'' \<mapsto> py_get (attrs node1) ''fmod'' (PyInt 0))\<rparr>)"

definition Mod_version_10 :: "onnx_node \<Rightarrow> operand list \<Rightarrow> onnx_node \<times> impl" where
  "Mod_version_10 node inputs = (Mod_prepare node inputs Onnx_mod, Onnx_mod)"

definition Mod_version_13 :: "onnx_node \<Rightarrow> operand list \<Rightarrow> onnx_node \<times> impl" where
  "Mod_version_13 node inputs = (Mod_prepare node inputs Onnx_mod, Onnx_mod)"

text \<open>\<^verbatim>\<open>Slice._prepare\<close> and the four version methods of \<^verbatim>\<open>Slice\<close>.\<close>

definition Slice_prepare :: "onnx_node \<Rightarrow> operand list \<Rightarrow> impl \<Rightarrow> onnx_node" where
  "Slice_prepare node inputs onnx_jax_impl = update_node_attrs_dict node onnx_jax_impl"

definition Slice_version_1 :: "onnx_node \<Rightarrow> operand list \<Rightarrow> onnx_node \<times> impl" where
  "Slice_version_1 node inputs = (Slice_prepare node inputs Onnx_slice, Onnx_slice)"

definition Slice_version_10 :: "onnx_node \<Rightarrow> operand list \<Rightarrow> onnx_node \<times> impl" where
  "Slice_version_10 node inputs = (Slice_prepare node inputs Onnx_slice, Onnx_slice)"

definition Slice_version_11 :: "onnx_node \<Rightarrow> operand list \<Rightarrow> onnx_node \<times> impl" where
  "Slice_version_11 node inputs = (Slice_prepare node inputs Onnx_slice, Onnx_slice)"

definition Slice_version_13 :: "onnx_node \<Rightarrow> operand list \<Rightarrow> onnx_node \<times> impl" where
  "Slice_version_13 node inputs = (Slice_prepare node inputs Onnx_slice, Onnx_slice)"

section \<open>Host tensor algebra\<close>

text \<open>
  The primitives of the host array library that the two translation functions call,
  after the library's documented behaviour on integer arrays. An operand holds the
  integers its caller supplied. Floating-point elements are outside this model.
\<close>

text \<open>
  The \<^verbatim>\<open>jax.jit\<close> boundary. Both translation functions are jitted, and an integer array
  enters a jitted function as an array of signed 32-bit integers: an element outside
  that range is wrapped into it. Inside, a remainder is never larger than its
  operands in absolute value (\<open>remainder_elem_in_int32\<close>, \<open>fmod_elem_in_int32\<close> below), so
  the arithmetic on the narrowed elements is written over the integers.
\<close>

definition in_int32 :: "int \<Rightarrow> bool" where
  "in_int32 v = (- (2 ^ 31) \<le> v \<and> v < 2 ^ 31)"

definition narrow32 :: "int \<Rightarrow> int" where
  "narrow32 v = (v + 2 ^ 31) mod 2 ^ 32 - 2 ^ 31"

definition jit_arg :: "operand \<Rightarrow> operand" where
  "jit_arg t = t\<lparr>data := map narrow32 (data t)\<rparr>"

text \<open>All index tuples of a shape, in row-major order, and the row-major offset.\<close>

fun all_indices :: "nat list \<Rightarrow> nat list list" where
  "all_indices [] = [[]]"
| "all_indices (d # ds) = concat (map (\<lambda>i. map ((#) i) (all_indices ds)) [0..<d])"

fun ravel :: "nat list \<Rightarrow> nat list \<Rightarrow> nat" where
  "ravel (d # ds) (i # js) = i * prod_list ds + ravel ds js"
| "ravel _ _ = 0"

definition get_at :: "'a tensor \<Rightarrow> nat list \<Rightarrow> 'a" where
  "get_at t idx = data t ! ravel (shape t) idx"

text \<open>
  Broadcasting of two shapes: the shorter one is padded with 1 on the left; two extents
  are compatible when they are equal or one of them is 1, and the result takes the
  extent that is not 1.
\<close>

definition pad_shape :: "nat \<Rightarrow> nat list \<Rightarrow> nat list" where
  "pad_shape n s = replicate (n - length s) 1 @ s"

definition broadcast_shapes :: "nat list \<Rightarrow> nat list \<Rightarrow> nat list option" where
  "broadcast_shapes s1 s2 =
     (let n = max (length s1) (length s2);
          p1 = pad_shape n s1;
          p2 = pad_shape n s2
      in if list_all2 (\<lambda>x y. x = y \<or> x = 1 \<or> y = 1) p1 p2
         then Some (map2 (\<lambda>x y. if x = 1 then y else x) p1 p2)
         else None)"

text \<open>
  Where an index of the broadcast result reads its operand: leading axes the operand
  does not have are dropped, an axis of extent 1 is read at 0.
\<close>

definition bidx :: "nat list \<Rightarrow> nat list \<Rightarrow> nat list" where
  "bidx s idx = map2 (\<lambda>d i. if d = 1 then 0 else i) s (drop (length idx - length s) idx)"

definition broadcast_to :: "'a tensor \<Rightarrow> nat list \<Rightarrow> 'a tensor option" where
  "broadcast_to t s =
     (if broadcast_shapes (shape t) s = Some s
      then Some \<lparr>shape = s, data = map (\<lambda>idx. get_at t (bidx (shape t) idx)) (all_indices s)\<rparr>
      else None)"

definition elementwise :: "('a \<Rightarrow> 'a \<Rightarrow> 'b) \<Rightarrow> 'a tensor \<Rightarrow> 'a tensor \<Rightarrow> error + 'b tensor" where
  "elementwise f a b =
     (case broadcast_shapes (shape a) (shape b) of
        None \<Rightarrow> Inl BroadcastError
      | Some s \<Rightarrow>
          Inr \<lparr>shape = s,
               data = map (\<lambda>idx. f (get_at a (bidx (shape a) idx)) (get_at b (bidx (shape b) idx)))
                          (all_indices s)\<rparr>)"

text \<open>
  \<^verbatim>\<open>lax.rem\<close>: the truncating remainder, its sign that of the dividend.
  \<^verbatim>\<open>jnp.fmod\<close> is \<^verbatim>\<open>lax.rem\<close>; \<^verbatim>\<open>jnp.mod\<close> adds the divisor back when the remainder is
  non-zero and its sign differs from the divisor's. On integer arrays both replace a
  zero divisor by one first.
\<close>

definition lax_rem :: "int \<Rightarrow> int \<Rightarrow> int" where
  "lax_rem x y = sgn x * (\<bar>x\<bar> mod \<bar>y\<bar>)"

definition fmod_elem :: "int \<Rightarrow> int \<Rightarrow> int" where
  "fmod_elem x1 x2 = lax_rem x1 (if x2 = 0 then 1 else x2)"

definition remainder_elem :: "int \<Rightarrow> int \<Rightarrow> int" where
  "remainder_elem x1 x2 =
     (let y = (if x2 = 0 then 1 else x2);
          trunc_mod = lax_rem x1 y;
          do_plus = ((trunc_mod < 0) \<noteq> (y < 0) \<and> trunc_mod \<noteq> 0)
      in if do_plus then trunc_mod + y else trunc_mod)"

definition jnp_mod :: "operand \<Rightarrow> operand \<Rightarrow> error + operand" where
  "jnp_mod a b = elementwise remainder_elem a b"

definition jnp_fmod :: "operand \<Rightarrow> operand \<Rightarrow> error + operand" where
  "jnp_fmod a b = elementwise fmod_elem a b"

text \<open>\<^verbatim>\<open>len(t)\<close> of an array: its first extent; a 0-dimensional array has none.\<close>

definition py_len :: "'a tensor \<Rightarrow> error + nat" where
  "py_len t = (case shape t of [] \<Rightarrow> Inl TypeError | d # _ \<Rightarrow> Inr d)"

definition jnp_zeros :: "nat \<Rightarrow> operand" where
  "jnp_zeros n = vec (replicate n 0)"

definition jnp_ones :: "nat \<Rightarrow> operand" where
  "jnp_ones n = vec (replicate n 1)"

definition jnp_array_shape :: "nat list \<Rightarrow> operand" where
  "jnp_array_shape s = vec (map int s)"

text \<open>
  \<^verbatim>\<open>arr.at[idx].set(vals)\<close> on a one-dimensional \<open>arr\<close>. With an index array, \<open>vals\<close>
  is broadcast to the shape of the index array and written position by position, in
  order; an index below zero counts from the end, an index still out of range is
  dropped. With \<^verbatim>\<open>None\<close> as the index the whole array is overwritten by \<open>vals\<close> broadcast
  to it.
\<close>

fun scatter :: "int list \<Rightarrow> (int \<times> int) list \<Rightarrow> int list" where
  "scatter xs [] = xs"
| "scatter xs ((i, v) # ivs) =
     scatter (let n = int (length xs); j = (if i < 0 then i + n else i)
              in if 0 \<le> j \<and> j < n then xs[nat j := v] else xs) ivs"

definition at_set :: "operand \<Rightarrow> operand option \<Rightarrow> operand \<Rightarrow> error + operand" where
  "at_set arr idx vals =
     (case idx of
        None \<Rightarrow>
          (case broadcast_to vals (1 # shape arr) of
             None \<Rightarrow> Inl BroadcastError
           | Some v \<Rightarrow> Inr \<lparr>shape = shape arr, data = data v\<rparr>)
      | Some ix \<Rightarrow>
          (case broadcast_to vals (shape ix) of
             None \<Rightarrow> Inl BroadcastError
           | Some v \<Rightarrow> Inr \<lparr>shape = shape arr, data = scatter (data arr) (zip (data ix) (data v))\<rparr>))"

text \<open>
  \<^verbatim>\<open>jax.lax.slice(x, start, limit, strides)\<close> takes its three index arguments as
  sequences of Python integers, fixed before the computation runs. \<open>lax_slice\<close> is the
  primitive on such sequences: it rejects a sequence whose length is not the rank of
  \<open>x\<close>, a limit beyond the extent, a negative start, a limit below its start and a
  stride that is not positive; it clamps nothing. The result has
  \<open>\<lceil>(limit - start) / stride\<rceil>\<close> elements along each axis.

  \<open>jax_lax_slice\<close> is the call as the body makes it, with an array in each of the three
  places. The primitive reads such an argument by iterating it (\<open>to_seq\<close>): a
  0-dimensional array cannot be iterated, and the rows of any other array are arrays
  themselves (traced values inside the jitted body), not Python integers, so the
  primitive rejects them with \<open>TypeError\<close>. Only an array with no rows gives a sequence
  the primitive accepts, the empty one.
\<close>

definition to_seq :: "operand \<Rightarrow> error + int list" where
  "to_seq t =
     (case shape t of
        [] \<Rightarrow> Inl TypeError
      | d # _ \<Rightarrow> if d = 0 then Inr [] else Inl TypeError)"

definition lax_slice :: "'a tensor \<Rightarrow> int list \<Rightarrow> int list \<Rightarrow> int list \<Rightarrow> error + 'a tensor" where
  "lax_slice x start limit strides =
     (if length (shape x) \<noteq> length start \<or> length start \<noteq> length limit then Inl TypeError
      else if \<not> list_all2 (\<lambda>l d. l \<le> int d) limit (shape x) then Inl TypeError
      else if \<not> list_all (\<lambda>s. 0 \<le> s) start then Inl TypeError
      else if \<not> list_all2 (\<lambda>s l. s \<le> l) start limit then Inl TypeError
      else if length strides \<noteq> length (shape x) then Inl TypeError
      else if \<not> list_all (\<lambda>k. 0 < k) strides then Inl TypeError
      else
        let out_shape = map (\<lambda>(s, l, k). nat ((l - s + k - 1) div k)) (zip start (zip limit strides))
        in Inr \<lparr>shape = out_shape,
                data = map (\<lambda>idx. get_at x (map (\<lambda>(s, k, i). nat s + nat k * i)
                                                 (zip start (zip strides idx))))
                           (all_indices out_shape)\<rparr>)"

definition jax_lax_slice :: "operand \<Rightarrow> operand \<Rightarrow> operand \<Rightarrow> operand \<Rightarrow> error + operand" where
  "jax_lax_slice x start limit strides =
     (case to_seq start of
        Inl e \<Rightarrow> Inl e
      | Inr start_seq \<Rightarrow>
          (case to_seq limit of
             Inl e \<Rightarrow> Inl e
           | Inr limit_seq \<Rightarrow>
               (case to_seq strides of
                  Inl e \<Rightarrow> Inl e
                | Inr strides_seq \<Rightarrow> lax_slice x start_seq limit_seq strides_seq)))"

section \<open>Translation functions\<close>

text \<open>
  \<^verbatim>\<open>onnx_mod(*input_args, fmod)\<close>: \<open>onnx_mod_body\<close> is the body as written, \<open>onnx_mod\<close> the
  jitted function, which hands the body its operands narrowed; \<open>fmod\<close> is static and
  passes as it is.
\<close>

definition onnx_mod_body :: "operand list \<Rightarrow> py_value \<Rightarrow> error + operand" where
  "onnx_mod_body input_args fmod =
     (if length input_args \<noteq> 2 then Inl AssertionError
      else
        let a = input_args ! 0; b = input_args ! 1
        in if fmod = PyInt 0 then jnp_mod a b else jnp_fmod a b)"

definition onnx_mod :: "operand list \<Rightarrow> py_value \<Rightarrow> error + operand" where
  "onnx_mod input_args fmod = onnx_mod_body (map jit_arg input_args) fmod"

text \<open>
  \<^verbatim>\<open>onnx_slice(*input_args)\<close>, in three parts. \<open>slice_bounds\<close> is the first
  \<^verbatim>\<open>if\<close>/\<^verbatim>\<open>else\<close> of the body: it yields \<open>axes\<close> (\<open>None\<close> for Python's \<^verbatim>\<open>None\<close>),
  \<open>lax_start\<close> and \<open>lax_end\<close>. \<open>slice_steps\<close> is the second: it yields the local
  \<open>lax_steps\<close>, \<open>None\<close> when the branch taken never assigns it. \<open>onnx_slice_body\<close> is
  the unpacking, the assertion and the final call. \<open>onnx_slice\<close> is the jitted
  function: it has no static argument, so every input reaches the body narrowed.
\<close>

definition slice_bounds ::
  "operand list \<Rightarrow> operand \<Rightarrow> operand \<Rightarrow> operand \<Rightarrow> error + (operand option \<times> operand \<times> operand)" where
  "slice_bounds input_args x starts ends =
     (if length input_args < 3 then
        (case py_len starts of
           Inl e \<Rightarrow> Inl e
         | Inr n \<Rightarrow>
             if n \<noteq> length (shape x) then Inl AssertionError
             else Inr (None, starts, ends))
      else if length input_args \<le> 3 then Inl IndexError
      else
        let axes = input_args ! 3;
            lax_start = jnp_zeros (length (shape x));
            lax_end = jnp_array_shape (shape x)
        in (case at_set lax_start (Some axes) starts of
              Inl e \<Rightarrow> Inl e
            | Inr lax_start' \<Rightarrow>
                (case at_set lax_end (Some axes) ends of
                   Inl e \<Rightarrow> Inl e
                 | Inr lax_end' \<Rightarrow> Inr (Some axes, lax_start', lax_end'))))"

definition slice_steps :: "operand list \<Rightarrow> operand \<Rightarrow> operand option \<Rightarrow> error + operand option" where
  "slice_steps input_args x axes =
     (if length input_args > 4 then
        let steps = input_args ! 4;
            lax_steps = jnp_ones (length (shape x))
        in (case at_set lax_steps axes steps of
              Inl e \<Rightarrow> Inl e
            | Inr lax_steps' \<Rightarrow> Inr (Some lax_steps'))
      else Inr None)"

definition onnx_slice_body :: "operand list \<Rightarrow> error + operand" where
  "onnx_slice_body input_args =
     (case take 3 input_args of
        [x, starts, ends] \<Rightarrow>
          (case py_len starts of
             Inl e \<Rightarrow> Inl e
           | Inr n_starts \<Rightarrow>
               (case py_len ends of
                  Inl e \<Rightarrow> Inl e
                | Inr n_ends \<Rightarrow>
                    (if n_starts \<noteq> n_ends then Inl AssertionError
                     else
                       (case slice_bounds input_args x starts ends of
                          Inl e \<Rightarrow> Inl e
                        | Inr (axes, lax_start, lax_end) \<Rightarrow>
                            (case slice_steps input_args x axes of
                               Inl e \<Rightarrow> Inl e
                             | Inr None \<Rightarrow> Inl UnboundLocalError
                             | Inr (Some lax_steps) \<Rightarrow>
                                 jax_lax_slice x lax_start lax_end lax_steps)))))
      | _ \<Rightarrow> Inl ValueError)"

definition onnx_slice :: "operand list \<Rightarrow> error + operand" where
  "onnx_slice input_args = onnx_slice_body (map jit_arg input_args)"

section \<open>The specification's formulas\<close>





text \<open>
  The standard elementwise broadcast, stated axis by axis from the last axis
  backwards. \<open>rdim s k\<close> is the extent of the \<open>k\<close>-th axis from the end, 1 where the
  shape has no such axis. Two shapes are broadcastable when at every position the two
  extents are equal or one of them is 1; the broadcast shape has as many axes as the
  longer of the two and at every position the extent that is not 1.
\<close>

definition rdim :: "nat list \<Rightarrow> nat \<Rightarrow> nat" where
  "rdim s k = (if k < length s then s ! (length s - 1 - k) else 1)"

definition broadcastable :: "nat list \<Rightarrow> nat list \<Rightarrow> bool" where
  "broadcastable s1 s2 =
     list_all (\<lambda>k. rdim s1 k = rdim s2 k \<or> rdim s1 k = 1 \<or> rdim s2 k = 1)
       [0..<max (length s1) (length s2)]"

definition is_std_broadcast :: "nat list \<Rightarrow> nat list \<Rightarrow> nat list \<Rightarrow> bool" where
  "is_std_broadcast s1 s2 s =
     (length s = max (length s1) (length s2) \<and>
      list_all (\<lambda>k. rdim s k = (if rdim s1 k = 1 then rdim s2 k else rdim s1 k))
        [0..<length s])"

section \<open>Scalar remainders\<close>

lemma lax_rem_smod: "lax_rem x y = x smod y"
  by (simp add: lax_rem_def signed_modulo_int_def)

lemma smod_zero_iff: "b \<noteq> 0 \<Longrightarrow> (a smod b = 0) = (b dvd a)" for a b :: int
  by (simp add: signed_modulo_int_def mod_eq_0_iff_dvd sgn_if)

lemma smod_neg_iff: "b \<noteq> 0 \<Longrightarrow> (a smod b < 0) = (a < 0 \<and> \<not> b dvd a)" for a b :: int
proof -
  assume b: "b \<noteq> 0"
  have nn: "0 \<le> \<bar>a\<bar> mod \<bar>b\<bar>" using b by simp
  have z: "(\<bar>a\<bar> mod \<bar>b\<bar> = 0) = (b dvd a)" by (simp add: mod_eq_0_iff_dvd)
  show ?thesis
  proof (cases "a < 0")
    case True
    then have "a smod b = - (\<bar>a\<bar> mod \<bar>b\<bar>)" by (simp add: signed_modulo_int_def)
    with nn z True show ?thesis by linarith
  next
    case False
    then have "0 \<le> a smod b" using nn by (simp add: signed_modulo_int_def sgn_if)
    with False show ?thesis by linarith
  qed
qed

lemma remainder_elem_mod: "b \<noteq> 0 \<Longrightarrow> remainder_elem a b = a mod b"
proof -
  assume b: "b \<noteq> 0"
  have n: "(a smod b < 0) = (a < 0 \<and> \<not> b dvd a)" by (rule smod_neg_iff [OF b])
  have z: "(a smod b = 0) = (b dvd a)" by (rule smod_zero_iff [OF b])
  have a0: "\<not> b dvd a \<Longrightarrow> a \<noteq> 0" by auto
  have do_plus: "((a smod b < 0) \<noteq> (b < 0) \<and> a smod b \<noteq> 0) = (sgn a \<noteq> sgn b \<and> \<not> b dvd a)"
    unfolding n z using b a0 by (cases "a < 0"; cases "b < 0"; cases "b dvd a") (simp_all add: sgn_if)
  have "remainder_elem a b =
          (if (a smod b < 0) \<noteq> (b < 0) \<and> a smod b \<noteq> 0 then a smod b + b else a smod b)"
    using b by (simp add: remainder_elem_def Let_def lax_rem_smod)
  also have "\<dots> = (if sgn a \<noteq> sgn b \<and> \<not> b dvd a then a smod b + b else a smod b)"
    by (simp only: do_plus)
  also have "\<dots> = a mod b"
    by (simp add: modulo_int_eq_signed_modulo_int [of a b])
  finally show ?thesis .
qed









lemma in_int32_narrow32: "in_int32 (narrow32 v)"
proof -
  have "0 \<le> (v + 2 ^ 31) mod (2 ^ 32 :: int)" "(v + 2 ^ 31) mod (2 ^ 32 :: int) < 2 ^ 32"
    by simp_all
  then show ?thesis by (simp add: in_int32_def narrow32_def)
qed


lemma shape_jit_arg: "shape (jit_arg t) = shape t"
  by (simp add: jit_arg_def)

lemma py_len_jit_arg: "py_len (jit_arg t) = py_len t"
  by (simp add: py_len_def shape_jit_arg)

lemma remainder_elem_in_int32:
  assumes "in_int32 x" and "in_int32 y"
  shows "in_int32 (remainder_elem x y)"
proof (cases "y = 0")
  case True
  have "remainder_elem x 0 = x mod 1"
    using remainder_elem_mod [of 1 x] by (simp add: remainder_elem_def)
  with True show ?thesis by (simp add: in_int32_def)
next
  case False
  then have r: "remainder_elem x y = x mod y" by (rule remainder_elem_mod)
  show ?thesis
  proof (cases "0 < y")
    case True
    then have "0 \<le> x mod y" "x mod y < y" by simp_all
    with assms(2) show ?thesis unfolding r in_int32_def by linarith
  next
    case neg: False
    with False have "y < 0" by simp
    then have "x mod y \<le> 0" "y < x mod y" by simp_all
    with assms(2) show ?thesis unfolding r in_int32_def by linarith
  qed
qed

lemma smod_abs_le: "\<bar>x smod y\<bar> \<le> \<bar>x\<bar>" for x y :: int
proof (cases "y = 0")
  case True
  then show ?thesis by simp
next
  case False
  then have "\<bar>x\<bar> mod \<bar>y\<bar> \<le> \<bar>x\<bar>" by (intro zmod_le_nonneg_dividend) simp
  moreover have "0 \<le> \<bar>x\<bar> mod \<bar>y\<bar>" using False by simp
  ultimately show ?thesis by (simp add: signed_modulo_int_def abs_mult)
qed

lemma fmod_elem_in_int32:
  assumes "in_int32 x"
  shows "in_int32 (fmod_elem x y)"
proof -
  define z where "z = (if y = 0 then 1 else y)"
  have f: "fmod_elem x y = x smod z" by (simp add: fmod_elem_def lax_rem_smod z_def)
  have z: "z \<noteq> 0" by (simp add: z_def)
  have le: "\<bar>x smod z\<bar> \<le> \<bar>x\<bar>" by (rule smod_abs_le)
  show ?thesis
  proof (cases "x < 0")
    case True
    have "x smod z \<le> 0" using smod_neg_iff [OF z, of x] smod_zero_iff [OF z, of x] True
      by (cases "z dvd x") simp_all
    with le True assms show ?thesis unfolding f in_int32_def by linarith
  next
    case False
    then have "\<not> x smod z < 0" using smod_neg_iff [OF z, of x] by simp
    with le False assms show ?thesis unfolding f in_int32_def by linarith
  qed
qed

section \<open>Index enumeration\<close>

lemma length_all_indices: "length (all_indices s) = prod_list s"
proof (induction s)
  case Nil
  show ?case by simp
next
  case (Cons d ds)
  have "length (all_indices (d # ds)) = (\<Sum>i\<leftarrow>[0..<d]. prod_list ds)"
    by (simp add: length_concat comp_def Cons.IH)
  also have "\<dots> = d * prod_list ds"
    by (simp add: sum_list_triv)
  finally show ?case by simp
qed

lemma concat_offset_blocks:
  "concat (map (\<lambda>i. map (\<lambda>k. i * p + k) [0..<p]) [0..<d]) = [0..<d * p]"
proof (induction d)
  case 0
  show ?case by simp
next
  case (Suc d)
  have "map (\<lambda>k. d * p + k) [0..<p] = [d * p..<d * p + p]"
    using map_add_upt [of "d * p" p] by (simp add: add.commute)
  moreover have "[0..<d * p + p] = [0..<d * p] @ [d * p..<d * p + p]"
    using upt_add_eq_append [of 0 "d * p" p] by simp
  moreover have "Suc d * p = d * p + p" by simp
  ultimately show ?case
    using Suc.IH by (simp del: mult_Suc)
qed

lemma ravel_all_indices: "map (ravel s) (all_indices s) = [0..<prod_list s]"
proof (induction s)
  case Nil
  show ?case by simp
next
  case (Cons d ds)
  have "map (ravel (d # ds)) (all_indices (d # ds)) =
        concat (map (\<lambda>i. map (\<lambda>k. i * prod_list ds + k) (map (ravel ds) (all_indices ds))) [0..<d])"
    by (simp add: map_concat comp_def)
  also have "\<dots> = [0..<d * prod_list ds]"
    unfolding Cons.IH by (rule concat_offset_blocks)
  finally show ?case by simp
qed

text \<open>
  The row-major offset of an index is its position in the enumeration, so the
  element of a result at an index is the value computed for that index.
\<close>

lemma ravel_position:
  assumes "idx \<in> set (all_indices s)"
  shows "ravel s idx < prod_list s \<and> all_indices s ! ravel s idx = idx"
proof -
  from assms obtain k where k: "k < length (all_indices s)" "all_indices s ! k = idx"
    by (auto simp: in_set_conv_nth)
  then have kp: "k < prod_list s" by (simp add: length_all_indices)
  have "ravel s idx = map (ravel s) (all_indices s) ! k"
    using k by simp
  also have "\<dots> = k" unfolding ravel_all_indices using kp by simp
  finally show ?thesis using k kp by simp
qed

lemma get_at_tabulate:
  "idx \<in> set (all_indices s) \<Longrightarrow>
   get_at \<lparr>shape = s, data = map F (all_indices s)\<rparr> idx = F idx"
  using ravel_position [of idx s] by (simp add: get_at_def length_all_indices)

lemma elementwise_get_at:
  assumes "broadcast_shapes (shape a) (shape b) = Some s"
  shows "\<exists>r. elementwise f a b = Inr r \<and> shape r = s \<and> wf_tensor r \<and>
           (\<forall>idx \<in> set (all_indices s).
              get_at r idx = f (get_at a (bidx (shape a) idx)) (get_at b (bidx (shape b) idx)))"
  using assms by (simp add: elementwise_def wf_tensor_def length_all_indices get_at_tabulate)

section \<open>The broadcast rule\<close>

text \<open>
  The shape the host computes by padding is the standard broadcast shape, and the host
  fails exactly on the pairs that are not broadcastable.
\<close>

lemma list_all_upt: "list_all P [0..<n] = (\<forall>k<n. P k)"
  by (auto simp: list_all_iff)

lemma length_pad_shape: "length s \<le> n \<Longrightarrow> length (pad_shape n s) = n"
  by (simp add: pad_shape_def)

lemma pad_shape_from_end:
  assumes "length s \<le> n" and "k < n"
  shows "pad_shape n s ! (n - Suc k) = rdim s k"
proof (cases "k < length s")
  case True
  then have "\<not> n - Suc k < n - length s" using assms by linarith
  moreover have "n - Suc k - (n - length s) = length s - Suc k" using assms True by linarith
  ultimately show ?thesis using True by (simp add: pad_shape_def rdim_def nth_append)
next
  case False
  then have "n - Suc k < n - length s" using assms by linarith
  then show ?thesis using False by (simp add: pad_shape_def rdim_def nth_append)
qed

lemma all_below_from_end: "(\<forall>j<n. Q j) = (\<forall>k<n. Q (n - Suc k))" for n :: nat
proof
  assume "\<forall>j<n. Q j"
  then show "\<forall>k<n. Q (n - Suc k)" by simp
next
  assume r: "\<forall>k<n. Q (n - Suc k)"
  show "\<forall>j<n. Q j"
  proof (intro allI impI)
    fix j assume "j < n"
    then have "n - Suc j < n" "n - Suc (n - Suc j) = j" by linarith+
    with r show "Q j" by metis
  qed
qed

lemma broadcast_shapes_iff_broadcastable:
  "(broadcast_shapes s1 s2 \<noteq> None) = broadcastable s1 s2"
proof -
  define n where "n = max (length s1) (length s2)"
  have l: "length s1 \<le> n" "length s2 \<le> n" by (simp_all add: n_def)
  let ?P = "\<lambda>x y :: nat. x = y \<or> x = 1 \<or> y = 1"
  have "list_all2 ?P (pad_shape n s1) (pad_shape n s2) =
        (\<forall>j<n. ?P (pad_shape n s1 ! j) (pad_shape n s2 ! j))"
    by (simp add: list_all2_conv_all_nth length_pad_shape l)
  also have "\<dots> = (\<forall>k<n. ?P (pad_shape n s1 ! (n - Suc k)) (pad_shape n s2 ! (n - Suc k)))"
    by (rule all_below_from_end)
  also have "\<dots> = (\<forall>k<n. ?P (rdim s1 k) (rdim s2 k))"
    by (simp add: pad_shape_from_end l)
  also have "\<dots> = broadcastable s1 s2"
    by (simp add: broadcastable_def list_all_upt n_def)
  finally have "list_all2 ?P (pad_shape n s1) (pad_shape n s2) = broadcastable s1 s2" .
  then show ?thesis by (simp add: broadcast_shapes_def Let_def n_def)
qed

lemma broadcast_shapes_is_std_broadcast:
  assumes "broadcast_shapes s1 s2 = Some s"
  shows "is_std_broadcast s1 s2 s"
proof -
  define n where "n = max (length s1) (length s2)"
  have l: "length s1 \<le> n" "length s2 \<le> n" by (simp_all add: n_def)
  let ?f = "\<lambda>x y :: nat. if x = 1 then y else x"
  from assms have s: "s = map2 ?f (pad_shape n s1) (pad_shape n s2)"
    by (simp add: broadcast_shapes_def Let_def n_def split: if_splits)
  then have len: "length s = n" by (simp add: length_pad_shape l)
  have "rdim s k = ?f (rdim s1 k) (rdim s2 k)" if "k < n" for k
  proof -
    from that have j: "n - Suc k < n" by linarith
    have "rdim s k = s ! (n - Suc k)" using that len by (simp add: rdim_def)
    also have "\<dots> = ?f (pad_shape n s1 ! (n - Suc k)) (pad_shape n s2 ! (n - Suc k))"
      unfolding s using j by (simp add: length_pad_shape l)
    also have "\<dots> = ?f (rdim s1 k) (rdim s2 k)"
      using that by (simp add: pad_shape_from_end l)
    finally show ?thesis .
  qed
  then show ?thesis
    using len by (simp add: is_std_broadcast_def list_all_upt n_def)
qed

lemma std_broadcast_unique:
  "is_std_broadcast s1 s2 s \<Longrightarrow> is_std_broadcast s1 s2 s' \<Longrightarrow> s = s'"
proof (rule nth_equalityI)
  assume a: "is_std_broadcast s1 s2 s" and b: "is_std_broadcast s1 s2 s'"
  show len: "length s = length s'" using a b by (simp add: is_std_broadcast_def)
  fix j assume j: "j < length s"
  define k where "k = length s - 1 - j"
  have k: "k < length s" "length s - 1 - k = j" using j by (simp_all add: k_def)
  have "rdim s k = rdim s' k"
    using a b k(1) len by (simp add: is_std_broadcast_def list_all_upt)
  then show "s ! j = s' ! j" using k len by (simp add: rdim_def)
qed

section \<open>Preparation: properties\<close>

lemma attrs_update_node_attrs_dict: "attrs (update_node_attrs_dict node f) = attrs node"
  by (simp add: update_node_attrs_dict_def)

lemma attrs_dict_update_node_attrs_dict:
  "attrs_dict (update_node_attrs_dict node f) =
   (case f of
      Onnx_mod \<Rightarrow> (attrs_dict node)(''fmod'' \<mapsto> py_get (attrs node) ''fmod'' PyNone)
    | Onnx_slice \<Rightarrow> attrs_dict node)"
  by (cases f) (simp_all add: update_node_attrs_dict_def)

lemma update_node_attrs_dict_idem:
  "update_node_attrs_dict (update_node_attrs_dict node f) f = update_node_attrs_dict node f"
  by (cases f) (simp_all add: update_node_attrs_dict_def)

lemma attrs_Mod_prepare: "attrs (Mod_prepare node inputs f) = attrs node"
  by (simp add: Mod_prepare_def Let_def attrs_update_node_attrs_dict)

lemma attrs_dict_Mod_prepare:
  "attrs_dict (Mod_prepare node inputs f) =
   (attrs_dict node)(''fmod'' \<mapsto> py_get (attrs node) ''fmod'' (PyInt 0))"
  by (cases f)
     (simp_all add: Mod_prepare_def Let_def attrs_update_node_attrs_dict
        attrs_dict_update_node_attrs_dict)

text \<open>
  C6. A Mod node whose raw attributes have no \<open>fmod\<close> entry leaves preparation with
  \<open>attrs_dict["fmod"] = 0\<close>; a node that declares \<open>fmod\<close> leaves it with the declared
  value.
\<close>

theorem Mod_prepare_fmod_default:
  "(attrs node ''fmod'' = None \<longrightarrow>
      attrs_dict (Mod_prepare node inputs f) ''fmod'' = Some (PyInt 0)) \<and>
   (\<forall>v. attrs node ''fmod'' = Some v \<longrightarrow>
      attrs_dict (Mod_prepare node inputs f) ''fmod'' = Some v)"
  by (simp add: attrs_dict_Mod_prepare py_get_def)

theorem Mod_prepare_fmod_default_witness:
  "attrs \<lparr>op_type = ''Mod'', version = 13, attrs = Map.empty, attrs_dict = Map.empty\<rparr> ''fmod''
     = None \<and>
   attrs_dict (Mod_prepare
      \<lparr>op_type = ''Mod'', version = 13, attrs = Map.empty, attrs_dict = Map.empty\<rparr>
      [] Onnx_mod) ''fmod'' = Some (PyInt 0) \<and>
   attrs \<lparr>op_type = ''Mod'', version = 13, attrs = [''fmod'' \<mapsto> PyInt 1],
          attrs_dict = Map.empty\<rparr> ''fmod'' = Some (PyInt 1) \<and>
   attrs_dict (Mod_prepare
      \<lparr>op_type = ''Mod'', version = 13, attrs = [''fmod'' \<mapsto> PyInt 1],
        attrs_dict = Map.empty\<rparr>
      [] Onnx_mod) ''fmod'' = Some (PyInt 1)"
  using
    Mod_prepare_fmod_default
      [of "\<lparr>op_type = ''Mod'', version = 13, attrs = Map.empty, attrs_dict = Map.empty\<rparr>"
          "[]" Onnx_mod]
    Mod_prepare_fmod_default
      [of "\<lparr>op_type = ''Mod'', version = 13, attrs = [''fmod'' \<mapsto> PyInt 1],
             attrs_dict = Map.empty\<rparr>" "[]" Onnx_mod]
  by simp

text \<open>
  C8. The four version methods of Slice all return \<open>onnx_slice\<close> and the two of Mod
  both return \<open>onnx_mod\<close>; on the same node and inputs the version methods of one
  operator give the same prepared node and the same translation function.
\<close>

theorem version_methods_share_translation:
  "snd (Slice_version_1 node inputs) = Onnx_slice \<and>
   snd (Slice_version_10 node inputs) = Onnx_slice \<and>
   snd (Slice_version_11 node inputs) = Onnx_slice \<and>
   snd (Slice_version_13 node inputs) = Onnx_slice \<and>
   snd (Mod_version_10 node inputs) = Onnx_mod \<and>
   snd (Mod_version_13 node inputs) = Onnx_mod \<and>
   Slice_version_1 node inputs = Slice_version_10 node inputs \<and>
   Slice_version_10 node inputs = Slice_version_11 node inputs \<and>
   Slice_version_11 node inputs = Slice_version_13 node inputs \<and>
   Mod_version_10 node inputs = Mod_version_13 node inputs"
  by (simp add: Slice_version_1_def Slice_version_10_def Slice_version_11_def
      Slice_version_13_def Mod_version_10_def Mod_version_13_def)

text \<open>
  C9. Preparing a node that is already prepared, its raw attributes being the same,
  gives the node the first preparation gave: the \<open>attrs_dict\<close> is the same and no other
  field moves, for Mod and for Slice.
\<close>

theorem prepare_idempotent:
  "Mod_prepare (Mod_prepare node inputs f) inputs' f = Mod_prepare node inputs f \<and>
   attrs (Mod_prepare node inputs f) = attrs node \<and>
   Slice_prepare (Slice_prepare node inputs f) inputs' f = Slice_prepare node inputs f \<and>
   attrs (Slice_prepare node inputs f) = attrs node"
proof -
  have "Mod_prepare (Mod_prepare node inputs f) inputs' f = Mod_prepare node inputs f"
    by (cases f) (simp_all add: Mod_prepare_def Let_def update_node_attrs_dict_def)
  then show ?thesis
    by (simp add: attrs_Mod_prepare Slice_prepare_def update_node_attrs_dict_idem
        attrs_update_node_attrs_dict)
qed

text \<open>
  C10. Preparation never looks at the input operands: with the same node, any two
  input sequences give the same prepared node and the same translation function, in
  every version method of Mod and of Slice.
\<close>

theorem prepare_ignores_inputs:
  "Mod_version_10 node inputs1 = Mod_version_10 node inputs2 \<and>
   Mod_version_13 node inputs1 = Mod_version_13 node inputs2 \<and>
   Slice_version_1 node inputs1 = Slice_version_1 node inputs2 \<and>
   Slice_version_10 node inputs1 = Slice_version_10 node inputs2 \<and>
   Slice_version_11 node inputs1 = Slice_version_11 node inputs2 \<and>
   Slice_version_13 node inputs1 = Slice_version_13 node inputs2"
  by (simp add: Slice_version_1_def Slice_version_10_def Slice_version_11_def
      Slice_version_13_def Mod_version_10_def Mod_version_13_def
      Mod_prepare_def Slice_prepare_def)

section \<open>Mod: properties\<close>

lemma onnx_mod_two:
  "onnx_mod [a, b] fmod =
     (if fmod = PyInt 0 then jnp_mod (jit_arg a) (jit_arg b) else jnp_fmod (jit_arg a) (jit_arg b))"
  by (simp add: onnx_mod_def onnx_mod_body_def)




text \<open>
  C7. When the shapes of the two operands are broadcastable, Mod returns an array
  whose shape is the standard broadcast of the two, the only shape that is, with as
  many elements as that shape has; when they are not, Mod ends in the host's
  broadcast error. In both cases the result of Mod is the result of the host
  primitive, unchanged.
\<close>

theorem onnx_mod_broadcast_shape:
  "(broadcastable (shape a) (shape b) \<longrightarrow>
      (\<exists>r. onnx_mod [a, b] fmod = Inr r \<and> wf_tensor r \<and>
           is_std_broadcast (shape a) (shape b) (shape r) \<and>
           (\<forall>s. is_std_broadcast (shape a) (shape b) s \<longrightarrow> shape r = s))) \<and>
   (\<not> broadcastable (shape a) (shape b) \<longrightarrow> onnx_mod [a, b] fmod = Inl BroadcastError) \<and>
   onnx_mod [a, b] fmod =
     (if fmod = PyInt 0 then jnp_mod (jit_arg a) (jit_arg b) else jnp_fmod (jit_arg a) (jit_arg b))"
proof (intro conjI impI)
  assume "broadcastable (shape a) (shape b)"
  then obtain s where s: "broadcast_shapes (shape a) (shape b) = Some s"
    using broadcast_shapes_iff_broadcastable [of "shape a" "shape b"] by auto
  have std: "is_std_broadcast (shape a) (shape b) s"
    using s by (rule broadcast_shapes_is_std_broadcast)
  have js: "broadcast_shapes (shape (jit_arg a)) (shape (jit_arg b)) = Some s"
    using s by (simp add: shape_jit_arg)
  obtain r where r: "onnx_mod [a, b] fmod = Inr r" "shape r = s" "wf_tensor r"
  proof (cases "fmod = PyInt 0")
    case True
    from elementwise_get_at [OF js, of remainder_elem] obtain r where
      "elementwise remainder_elem (jit_arg a) (jit_arg b) = Inr r" "shape r = s" "wf_tensor r"
      by blast
    with True that show ?thesis by (simp add: onnx_mod_two jnp_mod_def)
  next
    case False
    from elementwise_get_at [OF js, of fmod_elem] obtain r where
      "elementwise fmod_elem (jit_arg a) (jit_arg b) = Inr r" "shape r = s" "wf_tensor r"
      by blast
    with False that show ?thesis by (simp add: onnx_mod_two jnp_fmod_def)
  qed
  have "\<forall>s'. is_std_broadcast (shape a) (shape b) s' \<longrightarrow> shape r = s'"
    using std r(2) by (auto dest: std_broadcast_unique)
  with r std show "\<exists>r. onnx_mod [a, b] fmod = Inr r \<and> wf_tensor r \<and>
           is_std_broadcast (shape a) (shape b) (shape r) \<and>
           (\<forall>s. is_std_broadcast (shape a) (shape b) s \<longrightarrow> shape r = s)"
    by auto
next
  assume "\<not> broadcastable (shape a) (shape b)"
  then have "broadcast_shapes (shape a) (shape b) = None"
    using broadcast_shapes_iff_broadcastable [of "shape a" "shape b"] by simp
  then show "onnx_mod [a, b] fmod = Inl BroadcastError"
    by (simp add: onnx_mod_two jnp_mod_def jnp_fmod_def elementwise_def shape_jit_arg)
next
  show "onnx_mod [a, b] fmod =
     (if fmod = PyInt 0 then jnp_mod (jit_arg a) (jit_arg b) else jnp_fmod (jit_arg a) (jit_arg b))"
    by (rule onnx_mod_two)
qed

text \<open>
  The witness: shapes \<open>(2, 1)\<close> and \<open>(3)\<close> broadcast to \<open>(2, 3)\<close>, which is neither
  operand's shape; shapes \<open>(2)\<close> and \<open>(3)\<close> do not broadcast.
\<close>

theorem onnx_mod_broadcast_shape_witness:
  "broadcastable (shape (matrix [[5], [7 :: int]])) (shape (vec [3, - 3, 2 :: int])) \<and>
   is_std_broadcast (shape (matrix [[5], [7 :: int]])) (shape (vec [3, - 3, 2 :: int])) [2, 3] \<and>
   (\<exists>r. onnx_mod [matrix [[5], [7]], vec [3, - 3, 2]] (PyInt 0) = Inr r \<and> wf_tensor r \<and>
        shape r = [2, 3]) \<and>
   \<not> broadcastable (shape (vec [5, - 5 :: int])) (shape (vec [3, 3, 3 :: int])) \<and>
   onnx_mod [vec [5, - 5], vec [3, 3, 3]] (PyInt 0) = Inl BroadcastError"
proof -
  let ?a = "matrix [[5], [7 :: int]]"
  let ?b = "vec [3, - 3, 2 :: int]"
  have h1: "broadcastable (shape ?a) (shape ?b)"
    by code_simp
  have h2: "is_std_broadcast (shape ?a) (shape ?b) [2, 3]"
    by code_simp
  have h3: "\<not> broadcastable (shape (vec [5, - 5 :: int])) (shape (vec [3, 3, 3 :: int]))"
    by code_simp
  from onnx_mod_broadcast_shape [of ?a ?b "PyInt 0"] h1 h2
  have e: "\<exists>r. onnx_mod [?a, ?b] (PyInt 0) = Inr r \<and> wf_tensor r \<and> shape r = [2, 3]"
    by blast
  from onnx_mod_broadcast_shape [of "vec [5, - 5]" "vec [3, 3, 3]" "PyInt 0"] h3
  have f: "onnx_mod [vec [5, - 5], vec [3, 3, 3]] (PyInt 0) = Inl BroadcastError"
    by blast
  from h1 h2 h3 e f show ?thesis by blast
qed

section \<open>Slice: properties\<close>

lemma take3_cons: "take 3 (x # y # z # rest) = [x, y, z]"
  by (simp add: numeral_3_eq_3)

lemma slice_steps_short: "length input_args \<le> 4 \<Longrightarrow> slice_steps input_args x axes = Inr None"
  by (simp add: slice_steps_def)

lemma slice_bounds_three: "slice_bounds [x, starts, ends] x' starts' ends' = Inl IndexError"
  by (simp add: slice_bounds_def)

lemma onnx_slice_body_three: "isl (onnx_slice_body [x, starts, ends])"
  by (simp add: onnx_slice_body_def take3_cons slice_bounds_three split: sum.splits)

lemma onnx_slice_body_four: "isl (onnx_slice_body [x, starts, ends, axes])"
  by (simp add: onnx_slice_body_def take3_cons slice_steps_short split: sum.splits prod.splits)

text \<open>
  C5. A call whose \<open>starts\<close> and \<open>ends\<close> have different lengths ends in the assertion
  failure of the first statements of the body, whatever the other inputs are; no
  array is returned.
\<close>

theorem onnx_slice_length_mismatch:
  "py_len starts = Inr n \<Longrightarrow> py_len ends = Inr m \<Longrightarrow> n \<noteq> m \<Longrightarrow>
   onnx_slice (x # starts # ends # rest) = Inl AssertionError"
  by (simp add: onnx_slice_def onnx_slice_body_def take3_cons py_len_jit_arg)

theorem onnx_slice_length_mismatch_witness:
  "py_len (vec [0, 0 :: int]) = Inr 2 \<and> py_len (vec [2 :: int]) = Inr 1 \<and> (2 :: nat) \<noteq> 1 \<and>
   onnx_slice [matrix [[1, 2, 3], [4, 5, 6]], vec [0, 0], vec [2]] = Inl AssertionError"
proof -
  have h: "py_len (vec [0, 0 :: int]) = Inr 2" "py_len (vec [2 :: int]) = Inr 1" "(2 :: nat) \<noteq> 1"
    by (simp_all add: py_len_def vec_def)
  from onnx_slice_length_mismatch [OF h, of "matrix [[1, 2, 3], [4, 5, 6]]" "[]"] h
  show ?thesis by simp
qed

text \<open>
  C2. With exactly three inputs the body never reaches the slicing: the branch that
  would default \<open>axes\<close> is guarded by \<open>len(input_args) < 3\<close>, which three inputs do not
  satisfy, and the other branch reads \<open>input_args[3]\<close>. Every call with three inputs
  ends in an exception; the full-range slice of a 4 by 5 array ends in \<open>IndexError\<close>.
\<close>

theorem onnx_slice_axes_omitted:
  "isl (onnx_slice [x, starts, ends]) \<and>
   onnx_slice [\<lparr>shape = [4, 5], data = map int [0..<20]\<rparr>, vec [0, 0], vec [4, 5]]
     = Inl IndexError"
proof -
  have "onnx_slice [\<lparr>shape = [4, 5], data = map int [0..<20]\<rparr>, vec [0, 0], vec [4, 5]]
          = Inl IndexError"
    by (simp add: onnx_slice_def onnx_slice_body_def take3_cons slice_bounds_three
        py_len_def shape_jit_arg vec_def)
  then show ?thesis by (simp add: onnx_slice_def onnx_slice_body_three)
qed

text \<open>
  C3. With four inputs the local \<open>lax_steps\<close> is never assigned: every call without
  \<open>steps\<close> ends in an exception and returns nothing. On a vector of four elements,
  \<open>starts = [1]\<close>, \<open>ends = [3]\<close>, \<open>axes = [0]\<close> ends in \<open>UnboundLocalError\<close>.
\<close>

theorem onnx_slice_steps_omitted:
  "isl (onnx_slice [x, starts, ends, axes]) \<and>
   onnx_slice [vec [10, 20, 30, 40], vec [1], vec [3], vec [0]] = Inl UnboundLocalError"
proof -
  have "onnx_slice [vec [10, 20, 30, 40], vec [1], vec [3], vec [0]] = Inl UnboundLocalError"
    by code_simp
  then show ?thesis by (simp add: onnx_slice_def onnx_slice_body_four)
qed

text \<open>
  C4. The scenario of the partial axes subset, \<open>x = [[1,2,3],[4,5,6]]\<close>,
  \<open>starts = [1]\<close>, \<open>ends = [3]\<close>, \<open>axes = [1]\<close>. The inputs pass the jit boundary
  unchanged; the body builds the full-rank vectors, start \<open>[0, 1]\<close> and end \<open>[2, 3]\<close>,
  axis 0 keeping start 0 and end 2; no statement assigns \<open>lax_steps\<close>; and the call ends
  in \<open>UnboundLocalError\<close>.
\<close>

theorem onnx_slice_partial_axes_scenario:
  "map jit_arg [matrix [[1, 2, 3], [4, 5, 6]], vec [1], vec [3], vec [1]]
     = [matrix [[1, 2, 3], [4, 5, 6]], vec [1], vec [3], vec [1]] \<and>
   slice_bounds [matrix [[1, 2, 3], [4, 5, 6]], vec [1], vec [3], vec [1]]
       (matrix [[1, 2, 3], [4, 5, 6]]) (vec [1]) (vec [3])
     = Inr (Some (vec [1]), vec [0, 1], vec [2, 3]) \<and>
   slice_steps [matrix [[1, 2, 3], [4, 5, 6]], vec [1], vec [3], vec [1]]
       (matrix [[1, 2, 3], [4, 5, 6]]) (Some (vec [1]))
     = Inr None \<and>
   onnx_slice [matrix [[1, 2, 3], [4, 5, 6]], vec [1], vec [3], vec [1]]
     = Inl UnboundLocalError"
proof -
  have a: "map jit_arg [matrix [[1, 2, 3], [4, 5, 6]], vec [1], vec [3], vec [1]]
             = [matrix [[1, 2, 3], [4, 5, 6]], vec [1], vec [3], vec [1]]"
    by code_simp
  have b: "slice_bounds [matrix [[1, 2, 3], [4, 5, 6]], vec [1], vec [3], vec [1]]
               (matrix [[1, 2, 3], [4, 5, 6]]) (vec [1]) (vec [3])
             = Inr (Some (vec [1]), vec [0, 1], vec [2, 3])"
    by code_simp
  have c: "slice_steps [matrix [[1, 2, 3], [4, 5, 6]], vec [1], vec [3], vec [1]]
               (matrix [[1, 2, 3], [4, 5, 6]]) (Some (vec [1]))
             = Inr None"
    by code_simp
  have d: "onnx_slice [matrix [[1, 2, 3], [4, 5, 6]], vec [1], vec [3], vec [1]]
             = Inl UnboundLocalError"
    by code_simp
  from a b c d show ?thesis by simp
qed

subsection \<open>The vectors the body builds\<close>

text \<open>
  Whenever the first part of the body succeeds with an \<open>axes\<close> input, a position that
  \<open>axes\<close> does not name, directly or counted from the end, keeps start 0 and end equal
  to the extent of \<open>x\<close> there.
\<close>

lemma length_scatter: "length (scatter xs ivs) = length xs"
  by (induction ivs arbitrary: xs) (auto simp: Let_def)

lemma scatter_untouched:
  "p < length xs \<Longrightarrow>
   \<forall>i \<in> fst ` set ivs. i \<noteq> int p \<and> i + int (length xs) \<noteq> int p \<Longrightarrow>
   scatter xs ivs ! p = xs ! p"
proof (induction ivs arbitrary: xs)
  case Nil
  show ?case by simp
next
  case (Cons iv ivs)
  obtain i v where iv: "iv = (i, v)" by (cases iv)
  define j where "j = (if i < 0 then i + int (length xs) else i)"
  define xs' where "xs' = (if 0 \<le> j \<and> j < int (length xs) then xs[nat j := v] else xs)"
  have len: "length xs' = length xs" by (simp add: xs'_def)
  have "i \<noteq> int p" "i + int (length xs) \<noteq> int p" using Cons.prems(2) iv by simp_all
  then have jp: "j \<noteq> int p" by (simp add: j_def)
  have keep: "xs' ! p = xs ! p"
  proof (cases "0 \<le> j \<and> j < int (length xs)")
    case True
    with jp have "nat j \<noteq> p" by linarith
    with True show ?thesis by (simp add: xs'_def)
  next
    case False
    then have "xs' = xs" unfolding xs'_def by (rule if_not_P)
    then show ?thesis by simp
  qed
  have step: "scatter xs (iv # ivs) = scatter xs' ivs"
    by (simp add: iv Let_def xs'_def j_def)
  have "scatter xs' ivs ! p = xs' ! p"
  proof (rule Cons.IH)
    show "p < length xs'" using Cons.prems(1) len by simp
    show "\<forall>k \<in> fst ` set ivs. k \<noteq> int p \<and> k + int (length xs') \<noteq> int p"
      using Cons.prems(2) len by simp
  qed
  with step keep show ?case by simp
qed

lemma at_set_untouched:
  assumes "at_set arr (Some ix) vals = Inr r" and "p < length (data arr)"
    and "\<forall>i \<in> set (data ix). i \<noteq> int p \<and> i + int (length (data arr)) \<noteq> int p"
  shows "data r ! p = data arr ! p \<and> shape r = shape arr \<and>
         length (data r) = length (data arr)"
proof -
  from assms(1) obtain v :: operand where
    r: "r = \<lparr>shape = shape arr, data = scatter (data arr) (zip (data ix) (data v))\<rparr>"
    by (auto simp: at_set_def split: option.splits)
  have "fst ` set (zip (data ix) (data v)) \<subseteq> set (data ix)"
    by (auto dest: set_zip_leftD)
  with assms(3) have
    "\<forall>i \<in> fst ` set (zip (data ix) (data v)). i \<noteq> int p \<and> i + int (length (data arr)) \<noteq> int p"
    by blast
  with assms(2) show ?thesis
    by (simp add: r scatter_untouched length_scatter)
qed

lemma slice_bounds_unnamed_axis:
  assumes ok: "slice_bounds input_args x starts ends = Inr (Some axes, lax_start, lax_end)"
    and p: "p < length (shape x)"
    and un: "\<forall>i \<in> set (data axes). i \<noteq> int p \<and> i + int (length (shape x)) \<noteq> int p"
  shows "data lax_start ! p = 0 \<and> data lax_end ! p = int (shape x ! p)"
proof -
  from ok have
    ls: "at_set (jnp_zeros (length (shape x))) (Some axes) starts = Inr lax_start" and
    le: "at_set (jnp_array_shape (shape x)) (Some axes) ends = Inr lax_end"
    by (auto simp: slice_bounds_def Let_def split: sum.splits if_splits)
  have z: "data lax_start ! p = 0"
    using at_set_untouched [OF ls] p un by (simp add: jnp_zeros_def vec_def)
  have e: "data lax_end ! p = int (shape x ! p)"
    using at_set_untouched [OF le] p un by (simp add: jnp_array_shape_def vec_def)
  from z e show ?thesis by simp
qed

subsection \<open>The final call\<close>

text \<open>
  The three vectors reach \<^verbatim>\<open>jax.lax.slice\<close> as arrays with one entry per axis of \<open>x\<close>.
  When \<open>x\<close> has at least one axis the primitive rejects them, so a call with all five
  inputs returns nothing either.
\<close>

lemma at_set_shape: "at_set arr idx vals = Inr r \<Longrightarrow> shape r = shape arr"
  by (auto simp: at_set_def split: option.splits)

lemma onnx_slice_five_inputs:
  assumes "shape x \<noteq> []"
  shows "isl (onnx_slice [x, starts, ends, axes, steps])"
proof -
  have ts: "to_seq t = Inl TypeError" if "shape t = [length (shape x)]" for t
    using that assms by (simp add: to_seq_def)
  have b: "jax_lax_slice x' ls le st = Inl TypeError"
    if "shape ls = [length (shape x)]" for x' ls le st
    using ts [OF that] by (simp add: jax_lax_slice_def)
  show ?thesis
    unfolding onnx_slice_def onnx_slice_body_def
    by (auto simp: take3_cons slice_bounds_def slice_steps_def Let_def shape_jit_arg
          jnp_zeros_def vec_def b
        split: sum.splits if_splits option.splits prod.splits
        dest!: at_set_shape)
qed

end
